theory Spec2Isabelle
  imports Main "HOL-Library.Word"
begin

section \<open>The PDF gateway: data model\<close>

text \<open>
  The repository holds two versions of the same Hono worker. Both register one handler
  for \<^verbatim>\<open>POST /pdf\<close> with \<^verbatim>\<open>app.openapi(pdfRoute, ...)\<close>:
  \<^item> \<^verbatim>\<open>index.ts\<close> calls the rendering provider through the Cloudflare client library
    (\<^verbatim>\<open>client.browserRendering.pdf.create\<close>);
  \<^item> the second source file calls it with a raw \<^verbatim>\<open>fetch\<close>.
  Each handler is embedded as a function of the three things it reads: the provider
  (a function from the call to what comes back), the environment bindings and the
  \<^verbatim>\<open>html\<close> value of the validated body. It returns the HTTP response together
  with the trace of its effects (outbound requests and \<^verbatim>\<open>console.error\<close> lines), in
  the order in which they happen.

  The route (\<open>pdf_route\<close>, \<open>pdf_route_fetch\<close>) puts the check of the JSON body against
  \<^verbatim>\<open>PDFRequestSchema\<close> in front of the handler, as \<^verbatim>\<open>app.openapi\<close> does for a
  request whose content type is JSON.
\<close>

type_synonym byte = "8 word"

text \<open>
  JSON values, as far as requests and responses need them. \<open>JZodError\<close> stands for the
  serialised validation error of the schema library; its members depend on the library
  and are not modelled.
\<close>

datatype json =
    JNull
  | JString string
  | JBool bool
  | JArray "json list"
  | JObject "(string \<times> json) list"
  | JZodError

fun json_keys :: "json \<Rightarrow> string list" where
  "json_keys (JObject fields) = map fst fields"
| "json_keys _ = []"

fun json_get :: "json \<Rightarrow> string \<Rightarrow> json option" where
  "json_get (JObject fields) k = map_of fields k"
| "json_get _ k = None"

text \<open>
  A thrown JavaScript value: an \<^verbatim>\<open>Error\<close> instance with its \<^verbatim>\<open>message\<close>, or any
  other value (kept as some printed form).
\<close>

datatype thrown = ErrorInstance string | NonError string

text \<open>\<^verbatim>\<open>interface Env\<close>: both bindings are optional strings.\<close>

record env =
  CLOUDFLARE_ACCOUNT_ID :: "string option"
  CLOUDFLARE_API_TOKEN :: "string option"

text \<open>
  The operator \<^verbatim>\<open>!\<close> on a value of type \<^verbatim>\<open>string | undefined\<close>: true for
  \<^verbatim>\<open>undefined\<close> and for the empty string.
\<close>

fun js_not :: "string option \<Rightarrow> bool" where
  "js_not None = True"
| "js_not (Some s) = (s = [])"

text \<open>
  The provider's HTTP response, as the handlers use it: its status, and the results of
  reading its body with \<^verbatim>\<open>text()\<close> and \<^verbatim>\<open>arrayBuffer()\<close>, each of which may reject.
\<close>

record provider_response =
  status :: nat
  text_result :: "thrown + string"
  arrayBuffer :: "thrown + byte list"

text \<open>\<^verbatim>\<open>response.ok\<close>: the status is in the range 200 to 299.\<close>

definition ok :: "provider_response \<Rightarrow> bool" where
  "ok response = (200 \<le> status response \<and> status response \<le> 299)"

text \<open>
  The gateway's own response is built in two ways: \<^verbatim>\<open>c.json(object, status)\<close> and
  \<^verbatim>\<open>new Response(body, { headers })\<close>. The latter has the default status 200.
\<close>

datatype response =
    JsonResponse json nat
  | RawResponse "byte list" "(string \<times> string) list"

text \<open>
  \<^verbatim>\<open>c.json(object, status)\<close> builds a \<^verbatim>\<open>Response\<close> with a body, and the
  \<^verbatim>\<open>Response\<close> constructor throws for some statuses: a \<^verbatim>\<open>RangeError\<close> when the
  status is not in the range 200 to 599, a \<^verbatim>\<open>TypeError\<close> when it is a null-body
  status. Both are \<^verbatim>\<open>Error\<close> instances. Their message is the runtime's own text; the
  strings below follow the Workers runtime, and no statement of this theory depends on
  them.
\<close>

definition null_body_status :: "nat \<Rightarrow> bool" where
  "null_body_status st = (st = 101 \<or> st = 204 \<or> st = 205 \<or> st = 304)"

definition status_accepted :: "nat \<Rightarrow> bool" where
  "status_accepted st = (200 \<le> st \<and> st \<le> 599 \<and> \<not> null_body_status st)"

definition response_init_error :: "nat \<Rightarrow> thrown" where
  "response_init_error st =
     (if st < 200 \<or> 599 < st
      then ErrorInstance
        ''Responses may only be constructed with status codes in the range 200 to 599, inclusive.''
      else ErrorInstance
        ''Response with null body status (101, 204, 205, or 304) cannot have a body.'')"

definition c_json :: "json \<Rightarrow> nat \<Rightarrow> thrown + response" where
  "c_json object st =
     (if st < 200 \<or> 599 < st then Inl (response_init_error st)
      else if null_body_status st then Inl (response_init_error st)
      else Inr (JsonResponse object st))"

fun status_of :: "response \<Rightarrow> nat" where
  "status_of (JsonResponse object st) = st"
| "status_of (RawResponse b hs) = 200"

fun header_of :: "response \<Rightarrow> string \<Rightarrow> string option" where
  "header_of (RawResponse b hs) k = map_of hs k"
| "header_of (JsonResponse object st) k = None"

fun raw_body :: "response \<Rightarrow> byte list option" where
  "raw_body (RawResponse b hs) = Some b"
| "raw_body (JsonResponse object st) = None"

text \<open>
  Effects, generic in the shape of the outbound call. \<open>ProviderCall\<close> is one HTTP
  request sent to the rendering provider.
\<close>

datatype log_value = LogText string | LogThrown thrown

datatype 'call effect =
    ProviderCall 'call
  | ConsoleError string log_value

fun provider_calls :: "'call effect list \<Rightarrow> 'call list" where
  "provider_calls [] = []"
| "provider_calls (ProviderCall c # fx) = c # provider_calls fx"
| "provider_calls (ConsoleError l v # fx) = provider_calls fx"

section \<open>The handler of \<^verbatim>\<open>index.ts\<close> (client library)\<close>

text \<open>
  The handler builds its client with \<^verbatim>\<open>new Cloudflare({ apiToken })\<close> and nothing
  else, so the client library's own retry policy applies: one invocation of
  \<^verbatim>\<open>pdf.create\<close> sends one HTTP request and then as many retries as the library
  decides. What comes back from an invocation is therefore the number of retries the
  library made and the outcome the handler sees: a thrown value, or the response.
\<close>

record cloudflare_client =
  apiToken :: string

record script_tag =
  url :: string

record pdf_options =
  printBackground :: bool

record pdf_create_params =
  account_id :: string
  html :: string
  addScriptTag :: "script_tag list"
  pdfOptions :: pdf_options

type_synonym sdk_call = "cloudflare_client \<times> pdf_create_params"

record sdk_result =
  retries :: nat
  outcome :: "thrown + provider_response"

definition html_required :: json where
  "html_required = JObject [(''error'', JString ''HTML content is required in the request body'')]"

definition credentials_not_configured :: json where
  "credentials_not_configured = JObject [(''error'', JString
     ''Cloudflare credentials not configured. Please set CLOUDFLARE_ACCOUNT_ID and CLOUDFLARE_API_TOKEN environment variables.'')]"

definition pdf_headers :: "(string \<times> string) list" where
  \<open>pdf_headers =
     [(''Content-Type'', ''application/pdf''),
      (''Content-Disposition'', ''attachment; filename="generated.pdf"'')]\<close>

definition create_params :: "string \<Rightarrow> string \<Rightarrow> pdf_create_params" where
  "create_params accountId h =
     \<lparr>account_id = accountId, html = h,
      addScriptTag = [\<lparr>url = ''https://cdn.jsdelivr.net/npm/@tailwindcss/browser@4''\<rparr>],
      pdfOptions = \<lparr>printBackground = True\<rparr>\<rparr>"

text \<open>The HTTP requests of one invocation: the first one and the library's retries.\<close>

definition sdk_requests :: "sdk_call \<Rightarrow> sdk_result \<Rightarrow> sdk_call effect list" where
  "sdk_requests call result = replicate (Suc (retries result)) (ProviderCall call)"

text \<open>
  The \<^verbatim>\<open>try\<close> block. \<open>Inl\<close> is a thrown value on its way to the \<^verbatim>\<open>catch\<close>,
  \<open>Inr\<close> a returned response. The handler does not look at the status of what
  \<^verbatim>\<open>pdf.create\<close> returns: a failed call reaches it as a thrown value, from the call
  itself or from \<^verbatim>\<open>arrayBuffer()\<close>.
\<close>

definition pdf_try ::
  "(sdk_call \<Rightarrow> sdk_result) \<Rightarrow> env \<Rightarrow> string option
     \<Rightarrow> (thrown + response) \<times> sdk_call effect list" where
  "pdf_try create e body_html =
     (case body_html of
        None \<Rightarrow> (c_json html_required 400, [])
      | Some h \<Rightarrow>
          if h = [] then (c_json html_required 400, [])
          else
            (case CLOUDFLARE_ACCOUNT_ID e of
               None \<Rightarrow> (c_json credentials_not_configured 500, [])
             | Some accountId \<Rightarrow>
                 (case CLOUDFLARE_API_TOKEN e of
                    None \<Rightarrow> (c_json credentials_not_configured 500, [])
                  | Some tok \<Rightarrow>
                      if accountId = [] \<or> tok = []
                      then (c_json credentials_not_configured 500, [])
                      else
                        (let client = \<lparr>apiToken = tok\<rparr>;
                             call = (client, create_params accountId h);
                             result = create call
                         in case outcome result of
                              Inl err \<Rightarrow> (Inl err, sdk_requests call result)
                            | Inr response \<Rightarrow>
                                (case arrayBuffer response of
                                   Inl err \<Rightarrow> (Inl err, sdk_requests call result)
                                 | Inr pdfBuffer \<Rightarrow>
                                     (Inr (RawResponse pdfBuffer pdf_headers),
                                      sdk_requests call result))))))"

text \<open>
  The \<^verbatim>\<open>catch (error)\<close> block, the same in both files. Its \<^verbatim>\<open>c.json\<close> has the
  status 500, which the \<^verbatim>\<open>Response\<close> constructor accepts.
\<close>

definition error_details :: "thrown \<Rightarrow> string" where
  "error_details err =
     (case err of ErrorInstance message \<Rightarrow> message | NonError v \<Rightarrow> ''Unknown error'')"

definition catch_response :: "thrown \<Rightarrow> response" where
  "catch_response err =
     JsonResponse (JObject [(''error'', JString ''Failed to generate PDF''),
                            (''details'', JString (error_details err))]) 500"

definition pdf_catch :: "thrown \<Rightarrow> response \<times> 'call effect list" where
  "pdf_catch err =
     (catch_response err, [ConsoleError ''Error generating PDF:'' (LogThrown err)])"

definition try_catch ::
  "(thrown + response) \<times> 'call effect list \<Rightarrow> response \<times> 'call effect list" where
  "try_catch t =
     (case t of
        (Inr r, fx) \<Rightarrow> (r, fx)
      | (Inl err, fx) \<Rightarrow> (case pdf_catch err of (r, fx') \<Rightarrow> (r, fx @ fx')))"

text \<open>
  The handler callback. Its last argument is the \<^verbatim>\<open>html\<close> of
  \<^verbatim>\<open>c.req.valid("json")\<close>: behind the schema validation of the route it is a string,
  possibly the empty one; \<open>None\<close> is the \<^verbatim>\<open>undefined\<close> that \<^verbatim>\<open>!html\<close> covers as
  well, which the route never passes on for a JSON body.
\<close>

definition pdf_handler ::
  "(sdk_call \<Rightarrow> sdk_result) \<Rightarrow> env \<Rightarrow> string option
     \<Rightarrow> response \<times> sdk_call effect list" where
  "pdf_handler create e body_html = try_catch (pdf_try create e body_html)"

section \<open>The handler of the second source file (raw fetch)\<close>

record fetch_init =
  "method" :: string
  headers :: "(string \<times> string) list"
  body :: json

type_synonym fetch_call = "string \<times> fetch_init"

text \<open>
  The request body is \<^verbatim>\<open>JSON.stringify({ html })\<close>; the model keeps the object that is
  serialised.
\<close>

definition fetch_request :: "string \<Rightarrow> string \<Rightarrow> string \<Rightarrow> fetch_call" where
  "fetch_request accountId tok h =
     (''https://api.cloudflare.com/client/v4/accounts/'' @ accountId @ ''/browser-rendering/pdf'',
      \<lparr>method = ''POST'',
       headers = [(''Authorization'', ''Bearer '' @ tok),
                  (''Content-Type'', ''application/json'')],
       body = JObject [(''html'', JString h)]\<rparr>)"

text \<open>
  In the branch for a response that is not \<^verbatim>\<open>ok\<close>, the \<^verbatim>\<open>console.error\<close> line
  comes first, then \<^verbatim>\<open>c.json(..., response.status)\<close>, still inside the \<^verbatim>\<open>try\<close>:
  when the provider's status is one that \<^verbatim>\<open>c.json\<close> cannot carry, the thrown error
  goes to the \<^verbatim>\<open>catch\<close>.
\<close>

definition pdf_try_fetch ::
  "(fetch_call \<Rightarrow> thrown + provider_response) \<Rightarrow> env \<Rightarrow> string option
     \<Rightarrow> (thrown + response) \<times> fetch_call effect list" where
  "pdf_try_fetch fetch e body_html =
     (case body_html of
        None \<Rightarrow> (c_json html_required 400, [])
      | Some h \<Rightarrow>
          if h = [] then (c_json html_required 400, [])
          else
            (case CLOUDFLARE_ACCOUNT_ID e of
               None \<Rightarrow> (c_json credentials_not_configured 500, [])
             | Some accountId \<Rightarrow>
                 (case CLOUDFLARE_API_TOKEN e of
                    None \<Rightarrow> (c_json credentials_not_configured 500, [])
                  | Some tok \<Rightarrow>
                      if accountId = [] \<or> tok = []
                      then (c_json credentials_not_configured 500, [])
                      else
                        (let call = fetch_request accountId tok h
                         in case fetch call of
                              Inl err \<Rightarrow> (Inl err, [ProviderCall call])
                            | Inr response \<Rightarrow>
                                if \<not> ok response then
                                  (case text_result response of
                                     Inl err \<Rightarrow> (Inl err, [ProviderCall call])
                                   | Inr errorText \<Rightarrow>
                                       (c_json
                                          (JObject
                                             [(''error'', JString ''Failed to generate PDF from Cloudflare API''),
                                              (''details'', JString errorText)])
                                          (status response),
                                        [ProviderCall call,
                                         ConsoleError ''Cloudflare API error:'' (LogText errorText)]))
                                else
                                  (case arrayBuffer response of
                                     Inl err \<Rightarrow> (Inl err, [ProviderCall call])
                                   | Inr pdfBuffer \<Rightarrow>
                                       (Inr (RawResponse pdfBuffer pdf_headers),
                                        [ProviderCall call]))))))"

definition pdf_handler_fetch ::
  "(fetch_call \<Rightarrow> thrown + provider_response) \<Rightarrow> env \<Rightarrow> string option
     \<Rightarrow> response \<times> fetch_call effect list" where
  "pdf_handler_fetch fetch e body_html = try_catch (pdf_try_fetch fetch e body_html)"

section \<open>The route: schema validation in front of the handler\<close>







section \<open>Vocabulary of the claims\<close>

text \<open>
  Both bindings are set and non-empty: the handler gets past
  \<^verbatim>\<open>if (!accountId || !apiToken)\<close> with these two strings.
\<close>

definition configured :: "env \<Rightarrow> string \<Rightarrow> string \<Rightarrow> bool" where
  "configured e accountId tok =
     (CLOUDFLARE_ACCOUNT_ID e = Some accountId \<and> CLOUDFLARE_API_TOKEN e = Some tok
      \<and> accountId \<noteq> [] \<and> tok \<noteq> [])"

text \<open>The environment in which every binding that is the empty string is unset instead.\<close>

definition unset_empty :: "env \<Rightarrow> env" where
  "unset_empty e =
     \<lparr>CLOUDFLARE_ACCOUNT_ID =
        (if CLOUDFLARE_ACCOUNT_ID e = Some [] then None else CLOUDFLARE_ACCOUNT_ID e),
      CLOUDFLARE_API_TOKEN =
        (if CLOUDFLARE_API_TOKEN e = Some [] then None else CLOUDFLARE_API_TOKEN e)\<rparr>"

text \<open>The \<^verbatim>\<open>error\<close> string of a JSON response, and the keys of its body.\<close>

fun error_message :: "response \<Rightarrow> string option" where
  "error_message (JsonResponse j st) =
     (case json_get j ''error'' of Some (JString m) \<Rightarrow> Some m | _ \<Rightarrow> None)"
| "error_message (RawResponse b hs) = None"





section \<open>Concrete inputs used below\<close>

definition env_ok :: env where
  "env_ok = \<lparr>CLOUDFLARE_ACCOUNT_ID = Some ''acct'', CLOUDFLARE_API_TOKEN = Some ''tok''\<rparr>"

definition env_unset :: env where
  "env_unset = \<lparr>CLOUDFLARE_ACCOUNT_ID = None, CLOUDFLARE_API_TOKEN = None\<rparr>"

definition env_empty_account :: env where
  "env_empty_account = \<lparr>CLOUDFLARE_ACCOUNT_ID = Some [], CLOUDFLARE_API_TOKEN = Some ''tok''\<rparr>"

definition pdf_bytes :: "byte list" where
  "pdf_bytes = [0x25, 0x50, 0x44, 0x46]"

definition response_pdf :: provider_response where
  "response_pdf = \<lparr>status = 200, text_result = Inr ''%PDF'', arrayBuffer = Inr pdf_bytes\<rparr>"


definition response_forbidden :: provider_response where
  "response_forbidden =
     \<lparr>status = 403, text_result = Inr ''forbidden'', arrayBuffer = Inr []\<rparr>"

definition response_not_modified :: provider_response where
  "response_not_modified =
     \<lparr>status = 304, text_result = Inr [], arrayBuffer = Inr []\<rparr>"

text \<open>Providers for the raw fetch: one that answers, one whose call throws.\<close>

definition provider_returns :: "provider_response \<Rightarrow> fetch_call \<Rightarrow> thrown + provider_response" where
  "provider_returns r call = Inr r"

definition provider_throws :: "thrown \<Rightarrow> fetch_call \<Rightarrow> thrown + provider_response" where
  "provider_throws err call = Inl err"

text \<open>
  Clients for \<^verbatim>\<open>pdf.create\<close>: one that returns at the first request, one that throws
  at the first request, and one that throws after two retries.
\<close>

definition client_returns :: "provider_response \<Rightarrow> sdk_call \<Rightarrow> sdk_result" where
  "client_returns r call = \<lparr>retries = 0, outcome = Inr r\<rparr>"

definition client_throws :: "thrown \<Rightarrow> sdk_call \<Rightarrow> sdk_result" where
  "client_throws err call = \<lparr>retries = 0, outcome = Inl err\<rparr>"

definition client_gives_up :: "thrown \<Rightarrow> sdk_call \<Rightarrow> sdk_result" where
  "client_gives_up err call = \<lparr>retries = 2, outcome = Inl err\<rparr>"

definition html_hi :: string where
  "html_hi = ''<h1>Hi</h1>''"

section \<open>Helper lemmas: the paths of the two handlers\<close>

lemma js_not_iff: "js_not v \<longleftrightarrow> v = None \<or> v = Some []"
  by (cases v) auto

lemma c_json_400: "c_json object 400 = Inr (JsonResponse object 400)"
  by (simp add: c_json_def null_body_status_def)

lemma c_json_500: "c_json object 500 = Inr (JsonResponse object 500)"
  by (simp add: c_json_def null_body_status_def)

lemma c_json_accepted:
  "status_accepted st \<Longrightarrow> c_json object st = Inr (JsonResponse object st)"
  by (auto simp: c_json_def status_accepted_def)

lemma c_json_rejected:
  "\<not> status_accepted st \<Longrightarrow> c_json object st = Inl (response_init_error st)"
  by (auto simp: c_json_def status_accepted_def)


lemma provider_calls_sdk_requests:
  "provider_calls (sdk_requests call result) = replicate (Suc (retries result)) call"
proof -
  have "provider_calls (replicate n (ProviderCall call)) = replicate n call" for n
    by (induction n) simp_all
  then show ?thesis by (simp only: sdk_requests_def)
qed

lemma provider_calls_append:
  "provider_calls (fx @ fx') = provider_calls fx @ provider_calls fx'"
  by (induction fx rule: provider_calls.induct) simp_all

subsection \<open>Client-library handler\<close>

lemma pdf_handler_no_html:
  "js_not body_html \<Longrightarrow> pdf_handler create e body_html = (JsonResponse html_required 400, [])"
  by (auto simp: js_not_iff pdf_handler_def pdf_try_def try_catch_def c_json_400)

lemma pdf_handler_no_config:
  "\<not> js_not body_html \<Longrightarrow>
   js_not (CLOUDFLARE_ACCOUNT_ID e) \<or> js_not (CLOUDFLARE_API_TOKEN e) \<Longrightarrow>
   pdf_handler create e body_html = (JsonResponse credentials_not_configured 500, [])"
  by (auto simp: js_not_iff pdf_handler_def pdf_try_def try_catch_def c_json_500
           split: option.splits)

lemma pdf_try_call:
  "configured e accountId tok \<Longrightarrow> h \<noteq> [] \<Longrightarrow>
   pdf_try create e (Some h) =
     (case outcome (create (\<lparr>apiToken = tok\<rparr>, create_params accountId h)) of
        Inl err \<Rightarrow>
          (Inl err,
           sdk_requests (\<lparr>apiToken = tok\<rparr>, create_params accountId h)
             (create (\<lparr>apiToken = tok\<rparr>, create_params accountId h)))
      | Inr response \<Rightarrow>
          (case arrayBuffer response of
             Inl err \<Rightarrow>
               (Inl err,
                sdk_requests (\<lparr>apiToken = tok\<rparr>, create_params accountId h)
                  (create (\<lparr>apiToken = tok\<rparr>, create_params accountId h)))
           | Inr pdfBuffer \<Rightarrow>
               (Inr (RawResponse pdfBuffer pdf_headers),
                sdk_requests (\<lparr>apiToken = tok\<rparr>, create_params accountId h)
                  (create (\<lparr>apiToken = tok\<rparr>, create_params accountId h)))))"
  by (simp add: configured_def pdf_try_def Let_def)

lemma pdf_handler_create_throws:
  "configured e accountId tok \<Longrightarrow> h \<noteq> [] \<Longrightarrow>
   outcome (create (\<lparr>apiToken = tok\<rparr>, create_params accountId h)) = Inl err \<Longrightarrow>
   pdf_handler create e (Some h) =
     (catch_response err,
      sdk_requests (\<lparr>apiToken = tok\<rparr>, create_params accountId h)
        (create (\<lparr>apiToken = tok\<rparr>, create_params accountId h))
      @ [ConsoleError ''Error generating PDF:'' (LogThrown err)])"
  by (simp add: pdf_handler_def pdf_try_call try_catch_def pdf_catch_def)

lemma pdf_handler_arrayBuffer_throws:
  "configured e accountId tok \<Longrightarrow> h \<noteq> [] \<Longrightarrow>
   outcome (create (\<lparr>apiToken = tok\<rparr>, create_params accountId h)) = Inr response \<Longrightarrow>
   arrayBuffer response = Inl err \<Longrightarrow>
   pdf_handler create e (Some h) =
     (catch_response err,
      sdk_requests (\<lparr>apiToken = tok\<rparr>, create_params accountId h)
        (create (\<lparr>apiToken = tok\<rparr>, create_params accountId h))
      @ [ConsoleError ''Error generating PDF:'' (LogThrown err)])"
  by (simp add: pdf_handler_def pdf_try_call try_catch_def pdf_catch_def)

lemma pdf_handler_success:
  "configured e accountId tok \<Longrightarrow> h \<noteq> [] \<Longrightarrow>
   outcome (create (\<lparr>apiToken = tok\<rparr>, create_params accountId h)) = Inr response \<Longrightarrow>
   arrayBuffer response = Inr pdfBuffer \<Longrightarrow>
   pdf_handler create e (Some h) =
     (RawResponse pdfBuffer pdf_headers,
      sdk_requests (\<lparr>apiToken = tok\<rparr>, create_params accountId h)
        (create (\<lparr>apiToken = tok\<rparr>, create_params accountId h)))"
  by (simp add: pdf_handler_def pdf_try_call try_catch_def)

lemma pdf_handler_calls:
  "configured e accountId tok \<Longrightarrow> h \<noteq> [] \<Longrightarrow>
   provider_calls (snd (pdf_handler create e (Some h))) =
     replicate (Suc (retries (create (\<lparr>apiToken = tok\<rparr>, create_params accountId h))))
       (\<lparr>apiToken = tok\<rparr>, create_params accountId h)"
  by (simp add: pdf_handler_def pdf_try_call try_catch_def pdf_catch_def
        provider_calls_append provider_calls_sdk_requests
           split: sum.splits)

subsection \<open>Raw-fetch handler\<close>

lemma pdf_handler_fetch_no_html:
  "js_not body_html \<Longrightarrow>
   pdf_handler_fetch fetch e body_html = (JsonResponse html_required 400, [])"
  by (auto simp: js_not_iff pdf_handler_fetch_def pdf_try_fetch_def try_catch_def c_json_400)

lemma pdf_handler_fetch_no_config:
  "\<not> js_not body_html \<Longrightarrow>
   js_not (CLOUDFLARE_ACCOUNT_ID e) \<or> js_not (CLOUDFLARE_API_TOKEN e) \<Longrightarrow>
   pdf_handler_fetch fetch e body_html = (JsonResponse credentials_not_configured 500, [])"
  by (auto simp: js_not_iff pdf_handler_fetch_def pdf_try_fetch_def try_catch_def c_json_500
           split: option.splits)

lemma pdf_try_fetch_call:
  "configured e accountId tok \<Longrightarrow> h \<noteq> [] \<Longrightarrow>
   pdf_try_fetch fetch e (Some h) =
     (case fetch (fetch_request accountId tok h) of
        Inl err \<Rightarrow> (Inl err, [ProviderCall (fetch_request accountId tok h)])
      | Inr response \<Rightarrow>
          if \<not> ok response then
            (case text_result response of
               Inl err \<Rightarrow> (Inl err, [ProviderCall (fetch_request accountId tok h)])
             | Inr errorText \<Rightarrow>
                 (c_json
                    (JObject [(''error'', JString ''Failed to generate PDF from Cloudflare API''),
                              (''details'', JString errorText)])
                    (status response),
                  [ProviderCall (fetch_request accountId tok h),
                   ConsoleError ''Cloudflare API error:'' (LogText errorText)]))
          else
            (case arrayBuffer response of
               Inl err \<Rightarrow> (Inl err, [ProviderCall (fetch_request accountId tok h)])
             | Inr pdfBuffer \<Rightarrow>
                 (Inr (RawResponse pdfBuffer pdf_headers),
                  [ProviderCall (fetch_request accountId tok h)])))"
  by (simp add: configured_def pdf_try_fetch_def Let_def split: sum.splits)

lemma pdf_handler_fetch_throws:
  "configured e accountId tok \<Longrightarrow> h \<noteq> [] \<Longrightarrow>
   fetch (fetch_request accountId tok h) = Inl err \<Longrightarrow>
   pdf_handler_fetch fetch e (Some h) =
     (catch_response err,
      [ProviderCall (fetch_request accountId tok h),
       ConsoleError ''Error generating PDF:'' (LogThrown err)])"
  by (simp add: pdf_handler_fetch_def pdf_try_fetch_call try_catch_def pdf_catch_def)

lemma pdf_handler_fetch_text_throws:
  "configured e accountId tok \<Longrightarrow> h \<noteq> [] \<Longrightarrow>
   fetch (fetch_request accountId tok h) = Inr response \<Longrightarrow> \<not> ok response \<Longrightarrow>
   text_result response = Inl err \<Longrightarrow>
   pdf_handler_fetch fetch e (Some h) =
     (catch_response err,
      [ProviderCall (fetch_request accountId tok h),
       ConsoleError ''Error generating PDF:'' (LogThrown err)])"
  by (simp add: pdf_handler_fetch_def pdf_try_fetch_call try_catch_def pdf_catch_def)

lemma pdf_handler_fetch_not_ok:
  "configured e accountId tok \<Longrightarrow> h \<noteq> [] \<Longrightarrow>
   fetch (fetch_request accountId tok h) = Inr response \<Longrightarrow> \<not> ok response \<Longrightarrow>
   text_result response = Inr errorText \<Longrightarrow> status_accepted (status response) \<Longrightarrow>
   pdf_handler_fetch fetch e (Some h) =
     (JsonResponse
        (JObject [(''error'', JString ''Failed to generate PDF from Cloudflare API''),
                  (''details'', JString errorText)])
        (status response),
      [ProviderCall (fetch_request accountId tok h),
       ConsoleError ''Cloudflare API error:'' (LogText errorText)])"
  by (simp add: pdf_handler_fetch_def pdf_try_fetch_call try_catch_def c_json_accepted)

lemma pdf_try_fetch_not_ok_rejected:
  "configured e accountId tok \<Longrightarrow> h \<noteq> [] \<Longrightarrow>
   fetch (fetch_request accountId tok h) = Inr response \<Longrightarrow> \<not> ok response \<Longrightarrow>
   text_result response = Inr errorText \<Longrightarrow> \<not> status_accepted (status response) \<Longrightarrow>
   pdf_try_fetch fetch e (Some h) =
     (Inl (response_init_error (status response)),
      [ProviderCall (fetch_request accountId tok h),
       ConsoleError ''Cloudflare API error:'' (LogText errorText)])"
  by (simp add: pdf_try_fetch_call c_json_rejected)

lemma pdf_handler_fetch_not_ok_rejected:
  "configured e accountId tok \<Longrightarrow> h \<noteq> [] \<Longrightarrow>
   fetch (fetch_request accountId tok h) = Inr response \<Longrightarrow> \<not> ok response \<Longrightarrow>
   text_result response = Inr errorText \<Longrightarrow> \<not> status_accepted (status response) \<Longrightarrow>
   pdf_handler_fetch fetch e (Some h) =
     (catch_response (response_init_error (status response)),
      [ProviderCall (fetch_request accountId tok h),
       ConsoleError ''Cloudflare API error:'' (LogText errorText),
       ConsoleError ''Error generating PDF:'' (LogThrown (response_init_error (status response)))])"
  by (simp add: pdf_handler_fetch_def pdf_try_fetch_not_ok_rejected try_catch_def pdf_catch_def)

lemma pdf_handler_fetch_arrayBuffer_throws:
  "configured e accountId tok \<Longrightarrow> h \<noteq> [] \<Longrightarrow>
   fetch (fetch_request accountId tok h) = Inr response \<Longrightarrow> ok response \<Longrightarrow>
   arrayBuffer response = Inl err \<Longrightarrow>
   pdf_handler_fetch fetch e (Some h) =
     (catch_response err,
      [ProviderCall (fetch_request accountId tok h),
       ConsoleError ''Error generating PDF:'' (LogThrown err)])"
  by (simp add: pdf_handler_fetch_def pdf_try_fetch_call try_catch_def pdf_catch_def)

lemma pdf_handler_fetch_success:
  "configured e accountId tok \<Longrightarrow> h \<noteq> [] \<Longrightarrow>
   fetch (fetch_request accountId tok h) = Inr response \<Longrightarrow> ok response \<Longrightarrow>
   arrayBuffer response = Inr pdfBuffer \<Longrightarrow>
   pdf_handler_fetch fetch e (Some h) =
     (RawResponse pdfBuffer pdf_headers, [ProviderCall (fetch_request accountId tok h)])"
  by (simp add: pdf_handler_fetch_def pdf_try_fetch_call try_catch_def)

lemma pdf_handler_fetch_calls:
  "configured e accountId tok \<Longrightarrow> h \<noteq> [] \<Longrightarrow>
   provider_calls (snd (pdf_handler_fetch fetch e (Some h))) =
     [fetch_request accountId tok h]"
  by (simp add: pdf_handler_fetch_def pdf_try_fetch_call try_catch_def pdf_catch_def
        c_json_def split: sum.splits)

subsection \<open>The route\<close>







subsection \<open>Every run of a handler is one of its paths\<close>



subsection \<open>The concrete inputs\<close>

lemma configured_env_ok: "configured env_ok ''acct'' ''tok''"
  by (simp add: configured_def env_ok_def)

lemma html_hi_nonempty: "html_hi \<noteq> []"
  by (simp add: html_hi_def)

lemma ok_response_pdf: "ok response_pdf"
  by (simp add: ok_def response_pdf_def)


lemma not_ok_response_forbidden: "\<not> ok response_forbidden"
  by (simp add: ok_def response_forbidden_def)

lemma accepted_response_forbidden: "status_accepted (status response_forbidden)"
  by (simp add: status_accepted_def null_body_status_def response_forbidden_def)

lemma not_ok_response_not_modified: "\<not> ok response_not_modified"
  by (simp add: ok_def response_not_modified_def)

lemma rejected_response_not_modified: "\<not> status_accepted (status response_not_modified)"
  by (simp add: status_accepted_def null_body_status_def response_not_modified_def)

section \<open>Claims\<close>

text \<open>
  C1 (as amended). For every request with non-empty \<^verbatim>\<open>html\<close> and both configuration
  values set and non-empty, each handler calls the rendering provider exactly once and
  never repeats the call itself.
  \<^item> In the raw-fetch file that is exactly one outbound request: a POST to the account's
    \<^verbatim>\<open>browser-rendering/pdf\<close> endpoint with a bearer token, whose body holds the
    request's html and nothing else, so no rendering options.
  \<^item> In \<^verbatim>\<open>index.ts\<close> it is one invocation of \<^verbatim>\<open>pdf.create\<close> on a client built
    from the token alone. Every outbound request of that invocation carries the account
    identifier, the request's html, one script tag (the Tailwind browser build) and
    \<^verbatim>\<open>printBackground: true\<close>. Their number is one plus the retries that the client
    library makes: exactly one when the library does not retry.
\<close>

theorem C1_exactly_one_provider_call:
  assumes "configured e accountId tok" and "h \<noteq> []"
  shows "provider_calls (snd (pdf_handler create e (Some h))) =
           replicate
             (Suc (retries (create (\<lparr>apiToken = tok\<rparr>, create_params accountId h))))
             (\<lparr>apiToken = tok\<rparr>,
              \<lparr>account_id = accountId, html = h,
               addScriptTag = [\<lparr>url = ''https://cdn.jsdelivr.net/npm/@tailwindcss/browser@4''\<rparr>],
               pdfOptions = \<lparr>printBackground = True\<rparr>\<rparr>)
       \<and> (retries (create (\<lparr>apiToken = tok\<rparr>, create_params accountId h)) = 0 \<longrightarrow>
            provider_calls (snd (pdf_handler create e (Some h))) =
              [(\<lparr>apiToken = tok\<rparr>,
                \<lparr>account_id = accountId, html = h,
                 addScriptTag = [\<lparr>url = ''https://cdn.jsdelivr.net/npm/@tailwindcss/browser@4''\<rparr>],
                 pdfOptions = \<lparr>printBackground = True\<rparr>\<rparr>)])
       \<and> provider_calls (snd (pdf_handler_fetch fetch e (Some h))) =
           [(''https://api.cloudflare.com/client/v4/accounts/'' @ accountId @ ''/browser-rendering/pdf'',
             \<lparr>method = ''POST'',
              headers = [(''Authorization'', ''Bearer '' @ tok),
                         (''Content-Type'', ''application/json'')],
              body = JObject [(''html'', JString h)]\<rparr>)]"
  using assms
  by (simp add: pdf_handler_calls pdf_handler_fetch_calls create_params_def fetch_request_def)

theorem C1_exactly_one_provider_call_witness:
  "configured env_ok ''acct'' ''tok'' \<and> html_hi \<noteq> []
   \<and> retries (client_throws (NonError ''boom'')
        (\<lparr>apiToken = ''tok''\<rparr>, create_params ''acct'' html_hi)) = 0
   \<and> provider_calls (snd (pdf_handler (client_throws (NonError ''boom'')) env_ok (Some html_hi))) =
       [(\<lparr>apiToken = ''tok''\<rparr>,
         \<lparr>account_id = ''acct'', html = ''<h1>Hi</h1>'',
          addScriptTag = [\<lparr>url = ''https://cdn.jsdelivr.net/npm/@tailwindcss/browser@4''\<rparr>],
          pdfOptions = \<lparr>printBackground = True\<rparr>\<rparr>)]
   \<and> provider_calls (snd (pdf_handler_fetch (provider_returns response_pdf) env_ok (Some html_hi))) =
       [(''https://api.cloudflare.com/client/v4/accounts/acct/browser-rendering/pdf'',
         \<lparr>method = ''POST'',
          headers = [(''Authorization'', ''Bearer tok''),
                     (''Content-Type'', ''application/json'')],
          body = JObject [(''html'', JString ''<h1>Hi</h1>'')]\<rparr>)]"
  using C1_exactly_one_provider_call [OF configured_env_ok html_hi_nonempty,
          of "client_throws (NonError ''boom'')" "provider_returns response_pdf"]
        configured_env_ok html_hi_nonempty
  by (simp add: html_hi_def client_throws_def)

text \<open>
  C1, counterexample. The claim as stated fails in two ways. On the raw-fetch handler,
  with html \<^verbatim>\<open><h1>Hi</h1>\<close> and both configuration values set, the one outbound call
  has a body whose only key is \<^verbatim>\<open>html\<close>: there is neither a script-tag injection nor
  a background-printing option. On the handler of \<^verbatim>\<open>index.ts\<close>, when the client
  library retries twice before it gives up, three outbound requests are sent.
\<close>

theorem C1_fetch_call_without_rendering_options:
  "configured env_ok ''acct'' ''tok'' \<and> \<not> js_not (Some html_hi)
   \<and> provider_calls (snd (pdf_handler_fetch (provider_returns response_pdf) env_ok (Some html_hi))) =
       [fetch_request ''acct'' ''tok'' html_hi]
   \<and> json_keys (body (snd (fetch_request ''acct'' ''tok'' html_hi))) = [''html'']
   \<and> json_get (body (snd (fetch_request ''acct'' ''tok'' html_hi))) ''addScriptTag'' = None
   \<and> json_get (body (snd (fetch_request ''acct'' ''tok'' html_hi))) ''pdfOptions'' = None
   \<and> length (provider_calls (snd (pdf_handler
         (client_gives_up (ErrorInstance ''500 Internal Server Error'')) env_ok (Some html_hi)))) = 3"
  using pdf_handler_fetch_calls [OF configured_env_ok html_hi_nonempty,
          of "provider_returns response_pdf"]
        pdf_handler_calls [OF configured_env_ok html_hi_nonempty,
          of "client_gives_up (ErrorInstance ''500 Internal Server Error'')"]
        configured_env_ok html_hi_nonempty
  by (simp add: fetch_request_def client_gives_up_def)

text \<open>
  C2. For every request where the provider call returns a binary payload (the client
  library's call returns and \<^verbatim>\<open>arrayBuffer()\<close> yields bytes; for the raw fetch, the
  response is also \<^verbatim>\<open>ok\<close>), the gateway's response has status 200, the header
  \<^verbatim>\<open>Content-Type: application/pdf\<close>, the header
  \<^verbatim>\<open>Content-Disposition: attachment; filename="generated.pdf"\<close>, and a body that is
  the provider's byte sequence itself.
\<close>

theorem C2_pdf_passthrough:
  assumes \<open>configured e accountId tok\<close> and \<open>h \<noteq> []\<close>
  shows \<open>(outcome (create (\<lparr>apiToken = tok\<rparr>, create_params accountId h)) = Inr r1
           \<and> arrayBuffer r1 = Inr bytes1 \<longrightarrow>
            fst (pdf_handler create e (Some h)) =
              RawResponse bytes1
                [(''Content-Type'', ''application/pdf''),
                 (''Content-Disposition'', ''attachment; filename="generated.pdf"'')]
          \<and> status_of (fst (pdf_handler create e (Some h))) = 200
          \<and> header_of (fst (pdf_handler create e (Some h))) ''Content-Type'' =
              Some ''application/pdf''
          \<and> header_of (fst (pdf_handler create e (Some h))) ''Content-Disposition'' =
              Some ''attachment; filename="generated.pdf"''
          \<and> raw_body (fst (pdf_handler create e (Some h))) = Some bytes1)
       \<and> (fetch (fetch_request accountId tok h) = Inr r2 \<and> ok r2
           \<and> arrayBuffer r2 = Inr bytes2 \<longrightarrow>
            fst (pdf_handler_fetch fetch e (Some h)) =
              RawResponse bytes2
                [(''Content-Type'', ''application/pdf''),
                 (''Content-Disposition'', ''attachment; filename="generated.pdf"'')]
          \<and> status_of (fst (pdf_handler_fetch fetch e (Some h))) = 200
          \<and> header_of (fst (pdf_handler_fetch fetch e (Some h))) ''Content-Type'' =
              Some ''application/pdf''
          \<and> header_of (fst (pdf_handler_fetch fetch e (Some h))) ''Content-Disposition'' =
              Some ''attachment; filename="generated.pdf"''
          \<and> raw_body (fst (pdf_handler_fetch fetch e (Some h))) = Some bytes2)\<close>
  using assms
  by (simp add: pdf_handler_success pdf_handler_fetch_success pdf_headers_def)

theorem C2_pdf_passthrough_witness:
  \<open>configured env_ok ''acct'' ''tok'' \<and> html_hi \<noteq> []
   \<and> outcome (client_returns response_pdf (\<lparr>apiToken = ''tok''\<rparr>, create_params ''acct'' html_hi)) =
       Inr response_pdf
   \<and> provider_returns response_pdf (fetch_request ''acct'' ''tok'' html_hi) = Inr response_pdf
   \<and> ok response_pdf
   \<and> arrayBuffer response_pdf = Inr [0x25, 0x50, 0x44, 0x46]
   \<and> fst (pdf_handler (client_returns response_pdf) env_ok (Some html_hi)) =
       RawResponse [0x25, 0x50, 0x44, 0x46]
         [(''Content-Type'', ''application/pdf''),
          (''Content-Disposition'', ''attachment; filename="generated.pdf"'')]
   \<and> status_of (fst (pdf_handler (client_returns response_pdf) env_ok (Some html_hi))) = 200
   \<and> fst (pdf_handler_fetch (provider_returns response_pdf) env_ok (Some html_hi)) =
       RawResponse [0x25, 0x50, 0x44, 0x46]
         [(''Content-Type'', ''application/pdf''),
          (''Content-Disposition'', ''attachment; filename="generated.pdf"'')]
   \<and> status_of (fst (pdf_handler_fetch (provider_returns response_pdf) env_ok (Some html_hi))) = 200\<close>
  using C2_pdf_passthrough [OF configured_env_ok html_hi_nonempty,
          of "client_returns response_pdf" response_pdf pdf_bytes
             "provider_returns response_pdf" response_pdf pdf_bytes]
        configured_env_ok html_hi_nonempty ok_response_pdf
  by (simp add: provider_returns_def client_returns_def response_pdf_def pdf_bytes_def)

text \<open>
  C3 (as amended). For every request where the provider call fails:
  \<^item> in \<^verbatim>\<open>index.ts\<close> every failure is a thrown value (from the call or from reading
    its body), and the response has status 500 with the body
    \<^verbatim>\<open>{error: "Failed to generate PDF", details}\<close>;
  \<^item> in the raw-fetch file a thrown value (from \<^verbatim>\<open>fetch\<close>, from \<^verbatim>\<open>text()\<close> or
    from \<^verbatim>\<open>arrayBuffer()\<close>) gives the same status 500 and body;
  \<^item> in the raw-fetch file a result that is not \<^verbatim>\<open>ok\<close> is answered with the
    provider's own status code and the body
    \<^verbatim>\<open>{error: "Failed to generate PDF from Cloudflare API", details}\<close>, where
    \<^verbatim>\<open>details\<close> is the text of the provider's response, whenever that status is one
    a JSON response can carry (in the range 200 to 599 and not a null-body status, so
    300 to 599 except 304); for any other status building that response throws, and
    the answer is again status 500 with \<^verbatim>\<open>{error: "Failed to generate PDF", details}\<close>.
  The \<^verbatim>\<open>details\<close> field is present in every one of these responses.
\<close>

theorem C3_provider_failure_responses:
  assumes "configured e accountId tok" and "h \<noteq> []"
  shows "(outcome (create (\<lparr>apiToken = tok\<rparr>, create_params accountId h)) = Inl err
          \<or> (\<exists>r. outcome (create (\<lparr>apiToken = tok\<rparr>, create_params accountId h)) = Inr r
                  \<and> arrayBuffer r = Inl err) \<longrightarrow>
            fst (pdf_handler create e (Some h)) =
              JsonResponse
                (JObject [(''error'', JString ''Failed to generate PDF''),
                          (''details'', JString (error_details err))]) 500)
       \<and> (fetch (fetch_request accountId tok h) = Inl err
          \<or> (\<exists>r. fetch (fetch_request accountId tok h) = Inr r \<and> ok r
                  \<and> arrayBuffer r = Inl err)
          \<or> (\<exists>r. fetch (fetch_request accountId tok h) = Inr r \<and> \<not> ok r
                  \<and> text_result r = Inl err) \<longrightarrow>
            fst (pdf_handler_fetch fetch e (Some h)) =
              JsonResponse
                (JObject [(''error'', JString ''Failed to generate PDF''),
                          (''details'', JString (error_details err))]) 500)
       \<and> (fetch (fetch_request accountId tok h) = Inr r2 \<and> \<not> ok r2
          \<and> text_result r2 = Inr errorText
          \<and> 200 \<le> status r2 \<and> status r2 \<le> 599 \<and> \<not> null_body_status (status r2) \<longrightarrow>
            fst (pdf_handler_fetch fetch e (Some h)) =
              JsonResponse
                (JObject [(''error'', JString ''Failed to generate PDF from Cloudflare API''),
                          (''details'', JString errorText)])
                (status r2))
       \<and> (fetch (fetch_request accountId tok h) = Inr r2 \<and> \<not> ok r2
          \<and> text_result r2 = Inr errorText
          \<and> (status r2 < 200 \<or> 599 < status r2 \<or> null_body_status (status r2)) \<longrightarrow>
            fst (pdf_handler_fetch fetch e (Some h)) =
              JsonResponse
                (JObject [(''error'', JString ''Failed to generate PDF''),
                          (''details'',
                           JString (error_details (response_init_error (status r2))))]) 500)"
proof (intro conjI impI)
  assume "outcome (create (\<lparr>apiToken = tok\<rparr>, create_params accountId h)) = Inl err
          \<or> (\<exists>r. outcome (create (\<lparr>apiToken = tok\<rparr>, create_params accountId h)) = Inr r
                  \<and> arrayBuffer r = Inl err)"
  then have "fst (pdf_handler create e (Some h)) = catch_response err"
    using assms pdf_handler_create_throws [of e accountId tok h create err]
      pdf_handler_arrayBuffer_throws [of e accountId tok h create _ err]
    by auto
  then show "fst (pdf_handler create e (Some h)) =
      JsonResponse
        (JObject [(''error'', JString ''Failed to generate PDF''),
                  (''details'', JString (error_details err))]) 500"
    by (simp add: catch_response_def)
next
  assume "fetch (fetch_request accountId tok h) = Inl err
          \<or> (\<exists>r. fetch (fetch_request accountId tok h) = Inr r \<and> ok r
                  \<and> arrayBuffer r = Inl err)
          \<or> (\<exists>r. fetch (fetch_request accountId tok h) = Inr r \<and> \<not> ok r
                  \<and> text_result r = Inl err)"
  then have "fst (pdf_handler_fetch fetch e (Some h)) = catch_response err"
    using assms pdf_handler_fetch_throws [of e accountId tok h fetch err]
      pdf_handler_fetch_arrayBuffer_throws [of e accountId tok h fetch _ err]
      pdf_handler_fetch_text_throws [of e accountId tok h fetch _ err]
    by auto
  then show "fst (pdf_handler_fetch fetch e (Some h)) =
      JsonResponse
        (JObject [(''error'', JString ''Failed to generate PDF''),
                  (''details'', JString (error_details err))]) 500"
    by (simp add: catch_response_def)
next
  assume "fetch (fetch_request accountId tok h) = Inr r2 \<and> \<not> ok r2
          \<and> text_result r2 = Inr errorText
          \<and> 200 \<le> status r2 \<and> status r2 \<le> 599 \<and> \<not> null_body_status (status r2)"
  then show "fst (pdf_handler_fetch fetch e (Some h)) =
      JsonResponse
        (JObject [(''error'', JString ''Failed to generate PDF from Cloudflare API''),
                  (''details'', JString errorText)])
        (status r2)"
    using assms by (simp add: pdf_handler_fetch_not_ok status_accepted_def)
next
  assume a: "fetch (fetch_request accountId tok h) = Inr r2 \<and> \<not> ok r2
          \<and> text_result r2 = Inr errorText
          \<and> (status r2 < 200 \<or> 599 < status r2 \<or> null_body_status (status r2))"
  then have "\<not> status_accepted (status r2)"
    by (auto simp: status_accepted_def)
  then have "fst (pdf_handler_fetch fetch e (Some h)) =
      catch_response (response_init_error (status r2))"
    using assms a by (simp add: pdf_handler_fetch_not_ok_rejected)
  then show "fst (pdf_handler_fetch fetch e (Some h)) =
      JsonResponse
        (JObject [(''error'', JString ''Failed to generate PDF''),
                  (''details'',
                   JString (error_details (response_init_error (status r2))))]) 500"
    by (simp add: catch_response_def)
qed

theorem C3_provider_failure_responses_witness:
  "configured env_ok ''acct'' ''tok'' \<and> html_hi \<noteq> []
   \<and> outcome (client_throws (ErrorInstance ''network error'')
        (\<lparr>apiToken = ''tok''\<rparr>, create_params ''acct'' html_hi)) =
       Inl (ErrorInstance ''network error'')
   \<and> fst (pdf_handler (client_throws (ErrorInstance ''network error'')) env_ok (Some html_hi)) =
       JsonResponse
         (JObject [(''error'', JString ''Failed to generate PDF''),
                   (''details'', JString ''network error'')]) 500
   \<and> provider_returns response_forbidden (fetch_request ''acct'' ''tok'' html_hi) =
       Inr response_forbidden
   \<and> \<not> ok response_forbidden \<and> text_result response_forbidden = Inr ''forbidden''
   \<and> status response_forbidden = 403 \<and> \<not> null_body_status 403
   \<and> fst (pdf_handler_fetch (provider_returns response_forbidden) env_ok (Some html_hi)) =
       JsonResponse
         (JObject [(''error'', JString ''Failed to generate PDF from Cloudflare API''),
                   (''details'', JString ''forbidden'')]) 403
   \<and> provider_returns response_not_modified (fetch_request ''acct'' ''tok'' html_hi) =
       Inr response_not_modified
   \<and> \<not> ok response_not_modified \<and> text_result response_not_modified = Inr []
   \<and> status response_not_modified = 304 \<and> null_body_status 304
   \<and> status_of (fst (pdf_handler_fetch (provider_returns response_not_modified) env_ok (Some html_hi))) = 500
   \<and> error_message (fst (pdf_handler_fetch (provider_returns response_not_modified) env_ok (Some html_hi))) =
       Some ''Failed to generate PDF''"
proof -
  note t1 = C3_provider_failure_responses [OF configured_env_ok html_hi_nonempty,
          of "client_throws (ErrorInstance ''network error'')"
             "ErrorInstance ''network error''"
             "provider_returns response_forbidden" response_forbidden "''forbidden''"]
  note t2 = C3_provider_failure_responses [OF configured_env_ok html_hi_nonempty,
          of "client_throws (ErrorInstance ''network error'')"
             "ErrorInstance ''network error''"
             "provider_returns response_not_modified" response_not_modified "[]"]
  have f: "status response_forbidden = 403" "text_result response_forbidden = Inr ''forbidden''"
    by (simp_all add: response_forbidden_def)
  have n: "status response_not_modified = 304" "text_result response_not_modified = Inr []"
    by (simp_all add: response_not_modified_def)
  have nb: "\<not> null_body_status 403" "null_body_status 304"
    by (simp_all add: null_body_status_def)
  have a: "fst (pdf_handler (client_throws (ErrorInstance ''network error'')) env_ok (Some html_hi)) =
       JsonResponse
         (JObject [(''error'', JString ''Failed to generate PDF''),
                   (''details'', JString ''network error'')]) 500"
    using t1 by (simp add: client_throws_def error_details_def)
  have b: "fst (pdf_handler_fetch (provider_returns response_forbidden) env_ok (Some html_hi)) =
       JsonResponse
         (JObject [(''error'', JString ''Failed to generate PDF from Cloudflare API''),
                   (''details'', JString ''forbidden'')]) 403"
    using t1 f nb not_ok_response_forbidden by (simp add: provider_returns_def)
  have c: "fst (pdf_handler_fetch (provider_returns response_not_modified) env_ok (Some html_hi)) =
       JsonResponse
         (JObject [(''error'', JString ''Failed to generate PDF''),
                   (''details'', JString (error_details (response_init_error 304)))]) 500"
    using t2 n nb not_ok_response_not_modified by (simp add: provider_returns_def)
  show ?thesis
    using configured_env_ok html_hi_nonempty not_ok_response_forbidden
      not_ok_response_not_modified f n nb
    by (simp add: a b c client_throws_def provider_returns_def)
qed

text \<open>
  C3, counterexample. The claim as stated fails on the raw-fetch handler: when the provider
  answers 403, the gateway's response has status 403, not 500.
\<close>

theorem C3_fetch_status_passthrough:
  "configured env_ok ''acct'' ''tok'' \<and> \<not> js_not (Some html_hi)
   \<and> provider_returns response_forbidden (fetch_request ''acct'' ''tok'' html_hi) =
       Inr response_forbidden
   \<and> status response_forbidden = 403
   \<and> status_of (fst (pdf_handler_fetch (provider_returns response_forbidden) env_ok (Some html_hi))) = 403
   \<and> status_of (fst (pdf_handler_fetch (provider_returns response_forbidden) env_ok (Some html_hi))) \<noteq> 500"
  using pdf_handler_fetch_not_ok [OF configured_env_ok html_hi_nonempty,
          of "provider_returns response_forbidden" response_forbidden "''forbidden''"]
        configured_env_ok html_hi_nonempty not_ok_response_forbidden
        accepted_response_forbidden
  by (simp add: provider_returns_def response_forbidden_def)




text \<open>
  C5 (as amended). For every \<^verbatim>\<open>POST /pdf\<close> request, if the account identifier or
  the API credential is absent from the configuration, no outbound provider call is
  made, and the response status is 500, with the configuration error as its body, when
  the request's \<^verbatim>\<open>html\<close> is non-empty; when \<^verbatim>\<open>html\<close> is missing or empty the
  status is 400, because the handler checks \<^verbatim>\<open>html\<close> before the configuration.
\<close>

theorem C5_missing_configuration:
  assumes "js_not (CLOUDFLARE_ACCOUNT_ID e) \<or> js_not (CLOUDFLARE_API_TOKEN e)"
  shows "provider_calls (snd (pdf_handler create e body_html)) = []
       \<and> status_of (fst (pdf_handler create e body_html)) =
           (if js_not body_html then 400 else 500)
       \<and> (\<not> js_not body_html \<longrightarrow>
            fst (pdf_handler create e body_html) =
              JsonResponse credentials_not_configured 500)
       \<and> provider_calls (snd (pdf_handler_fetch fetch e body_html)) = []
       \<and> status_of (fst (pdf_handler_fetch fetch e body_html)) =
           (if js_not body_html then 400 else 500)
       \<and> (\<not> js_not body_html \<longrightarrow>
            fst (pdf_handler_fetch fetch e body_html) =
              JsonResponse credentials_not_configured 500)"
proof (cases "js_not body_html")
  case True
  then show ?thesis
    by (simp add: pdf_handler_no_html pdf_handler_fetch_no_html)
next
  case False
  then show ?thesis
    using assms by (simp add: pdf_handler_no_config pdf_handler_fetch_no_config)
qed

theorem C5_missing_configuration_witness:
  "(js_not (CLOUDFLARE_ACCOUNT_ID env_unset) \<or> js_not (CLOUDFLARE_API_TOKEN env_unset))
   \<and> \<not> js_not (Some html_hi)
   \<and> provider_calls (snd (pdf_handler (client_returns response_pdf) env_unset (Some html_hi))) = []
   \<and> status_of (fst (pdf_handler (client_returns response_pdf) env_unset (Some html_hi))) = 500
   \<and> provider_calls (snd (pdf_handler_fetch (provider_returns response_pdf) env_unset (Some html_hi))) = []
   \<and> status_of (fst (pdf_handler_fetch (provider_returns response_pdf) env_unset (Some html_hi))) = 500"
  using C5_missing_configuration [of env_unset "client_returns response_pdf" "Some html_hi"
          "provider_returns response_pdf"]
        html_hi_nonempty
  by (simp add: env_unset_def)

text \<open>
  C5, counterexample. The claim as stated fails: with both configuration values unset and an empty
  \<^verbatim>\<open>html\<close>, the response status is 400, not 500.
\<close>

theorem C5_empty_html_wins_over_missing_configuration:
  "js_not (CLOUDFLARE_ACCOUNT_ID env_unset) \<and> js_not (CLOUDFLARE_API_TOKEN env_unset)
   \<and> status_of (fst (pdf_handler (client_returns response_pdf) env_unset (Some []))) = 400
   \<and> status_of (fst (pdf_handler_fetch (provider_returns response_pdf) env_unset (Some []))) = 400"
  by (simp add: env_unset_def pdf_handler_no_html pdf_handler_fetch_no_html)







text \<open>
  C8 (as amended). If either configuration value is present but equal to the empty
  string, each handler treats it the same as unset: its whole result, response and
  effects, is the one it gives when every empty value is unset instead; no outbound
  provider call is made; and for a request whose \<^verbatim>\<open>html\<close> is non-empty the request
  ends with the 500 configuration-error response.
\<close>

theorem C8_empty_configuration_is_unset:
  assumes "CLOUDFLARE_ACCOUNT_ID e = Some [] \<or> CLOUDFLARE_API_TOKEN e = Some []"
  shows "pdf_handler create e body_html = pdf_handler create (unset_empty e) body_html
       \<and> provider_calls (snd (pdf_handler create e body_html)) = []
       \<and> (\<not> js_not body_html \<longrightarrow>
            pdf_handler create e body_html =
              (JsonResponse (JObject [(''error'', JString
                 ''Cloudflare credentials not configured. Please set CLOUDFLARE_ACCOUNT_ID and CLOUDFLARE_API_TOKEN environment variables.'')]) 500,
               []))
       \<and> pdf_handler_fetch fetch e body_html = pdf_handler_fetch fetch (unset_empty e) body_html
       \<and> provider_calls (snd (pdf_handler_fetch fetch e body_html)) = []
       \<and> (\<not> js_not body_html \<longrightarrow>
            pdf_handler_fetch fetch e body_html =
              (JsonResponse (JObject [(''error'', JString
                 ''Cloudflare credentials not configured. Please set CLOUDFLARE_ACCOUNT_ID and CLOUDFLARE_API_TOKEN environment variables.'')]) 500,
               []))"
proof -
  have falsy: "js_not (CLOUDFLARE_ACCOUNT_ID e) \<or> js_not (CLOUDFLARE_API_TOKEN e)"
    using assms by auto
  have falsy': "js_not (CLOUDFLARE_ACCOUNT_ID (unset_empty e))
      \<or> js_not (CLOUDFLARE_API_TOKEN (unset_empty e))"
    using assms by (auto simp: unset_empty_def)
  show ?thesis
  proof (cases "js_not body_html")
    case True
    then show ?thesis
      by (simp add: pdf_handler_no_html pdf_handler_fetch_no_html)
  next
    case False
    then show ?thesis
      using falsy falsy'
      by (simp add: pdf_handler_no_config pdf_handler_fetch_no_config
            credentials_not_configured_def)
  qed
qed

theorem C8_empty_configuration_is_unset_witness:
  "(CLOUDFLARE_ACCOUNT_ID env_empty_account = Some []
      \<or> CLOUDFLARE_API_TOKEN env_empty_account = Some [])
   \<and> \<not> js_not (Some html_hi)
   \<and> unset_empty env_empty_account =
       \<lparr>CLOUDFLARE_ACCOUNT_ID = None, CLOUDFLARE_API_TOKEN = Some ''tok''\<rparr>
   \<and> pdf_handler (client_returns response_pdf) env_empty_account (Some html_hi) =
       pdf_handler (client_returns response_pdf)
         \<lparr>CLOUDFLARE_ACCOUNT_ID = None, CLOUDFLARE_API_TOKEN = Some ''tok''\<rparr> (Some html_hi)
   \<and> status_of (fst (pdf_handler (client_returns response_pdf) env_empty_account (Some html_hi))) = 500
   \<and> snd (pdf_handler (client_returns response_pdf) env_empty_account (Some html_hi)) = []
   \<and> status_of (fst (pdf_handler_fetch (provider_returns response_pdf) env_empty_account (Some html_hi))) = 500
   \<and> snd (pdf_handler_fetch (provider_returns response_pdf) env_empty_account (Some html_hi)) = []"
proof -
  have u: "unset_empty env_empty_account =
      \<lparr>CLOUDFLARE_ACCOUNT_ID = None, CLOUDFLARE_API_TOKEN = Some ''tok''\<rparr>"
    by (simp add: unset_empty_def env_empty_account_def)
  have a: "CLOUDFLARE_ACCOUNT_ID env_empty_account = Some []
      \<or> CLOUDFLARE_API_TOKEN env_empty_account = Some []"
    by (simp add: env_empty_account_def)
  have d: "\<not> js_not (Some html_hi)"
    using html_hi_nonempty by simp
  note t = C8_empty_configuration_is_unset [OF a, of "client_returns response_pdf"
             "Some html_hi" "provider_returns response_pdf"]
  have e1: "pdf_handler (client_returns response_pdf) env_empty_account (Some html_hi) =
      pdf_handler (client_returns response_pdf)
        \<lparr>CLOUDFLARE_ACCOUNT_ID = None, CLOUDFLARE_API_TOKEN = Some ''tok''\<rparr> (Some html_hi)"
    using t u by metis
  have e2: "pdf_handler (client_returns response_pdf) env_empty_account (Some html_hi) =
      (JsonResponse (JObject [(''error'', JString
         ''Cloudflare credentials not configured. Please set CLOUDFLARE_ACCOUNT_ID and CLOUDFLARE_API_TOKEN environment variables.'')]) 500,
       [])"
    using t d by blast
  have e3: "pdf_handler_fetch (provider_returns response_pdf) env_empty_account (Some html_hi) =
      (JsonResponse (JObject [(''error'', JString
         ''Cloudflare credentials not configured. Please set CLOUDFLARE_ACCOUNT_ID and CLOUDFLARE_API_TOKEN environment variables.'')]) 500,
       [])"
    using t d by blast
  have s1: "status_of (fst (pdf_handler (client_returns response_pdf) env_empty_account (Some html_hi))) = 500"
    and s2: "snd (pdf_handler (client_returns response_pdf) env_empty_account (Some html_hi)) = []"
    by (simp_all add: e2)
  have s3: "status_of (fst (pdf_handler_fetch (provider_returns response_pdf) env_empty_account (Some html_hi))) = 500"
    and s4: "snd (pdf_handler_fetch (provider_returns response_pdf) env_empty_account (Some html_hi)) = []"
    by (simp_all add: e3)
  show ?thesis
    using a d u e1 s1 s2 s3 s4 by blast
qed

text \<open>
  C8, counterexample. The claim as stated fails: with the account identifier set to the empty
  string and an
  empty \<^verbatim>\<open>html\<close>, the request ends with the 400 validation error, not with the 500
  configuration error.
\<close>

theorem C8_empty_html_wins_over_empty_configuration:
  "CLOUDFLARE_ACCOUNT_ID env_empty_account = Some []
   \<and> fst (pdf_handler (client_returns response_pdf) env_empty_account (Some [])) =
       JsonResponse html_required 400
   \<and> status_of (fst (pdf_handler (client_returns response_pdf) env_empty_account (Some []))) = 400
   \<and> status_of (fst (pdf_handler_fetch (provider_returns response_pdf) env_empty_account (Some []))) = 400"
  by (simp add: env_empty_account_def pdf_handler_no_html pdf_handler_fetch_no_html)

text \<open>
  C9. If the value caught by the \<^verbatim>\<open>catch\<close> block of a handler is not an
  \<^verbatim>\<open>Error\<close> instance, the response has status 500 and its \<^verbatim>\<open>details\<close> field is the
  fixed string \<^verbatim>\<open>Unknown error\<close>, whatever the thrown value is.
\<close>

theorem C9_unknown_error_details:
  "(pdf_try create e body_html = (Inl (NonError v), fx1) \<longrightarrow>
      fst (pdf_handler create e body_html) =
        JsonResponse
          (JObject [(''error'', JString ''Failed to generate PDF''),
                    (''details'', JString ''Unknown error'')]) 500)
   \<and> (pdf_try_fetch fetch e body_html = (Inl (NonError v), fx2) \<longrightarrow>
      fst (pdf_handler_fetch fetch e body_html) =
        JsonResponse
          (JObject [(''error'', JString ''Failed to generate PDF''),
                    (''details'', JString ''Unknown error'')]) 500)"
  by (simp add: pdf_handler_def pdf_handler_fetch_def try_catch_def pdf_catch_def
        catch_response_def error_details_def)

theorem C9_unknown_error_details_witness:
  "pdf_try (client_throws (NonError ''boom'')) env_ok (Some html_hi) =
     (Inl (NonError ''boom''), [ProviderCall (\<lparr>apiToken = ''tok''\<rparr>, create_params ''acct'' html_hi)])
   \<and> fst (pdf_handler (client_throws (NonError ''boom'')) env_ok (Some html_hi)) =
       JsonResponse
         (JObject [(''error'', JString ''Failed to generate PDF''),
                   (''details'', JString ''Unknown error'')]) 500
   \<and> pdf_try_fetch (provider_throws (NonError ''boom'')) env_ok (Some html_hi) =
     (Inl (NonError ''boom''), [ProviderCall (fetch_request ''acct'' ''tok'' html_hi)])
   \<and> fst (pdf_handler_fetch (provider_throws (NonError ''boom'')) env_ok (Some html_hi)) =
       JsonResponse
         (JObject [(''error'', JString ''Failed to generate PDF''),
                   (''details'', JString ''Unknown error'')]) 500"
proof -
  have a: "pdf_try (client_throws (NonError ''boom'')) env_ok (Some html_hi) =
     (Inl (NonError ''boom''), [ProviderCall (\<lparr>apiToken = ''tok''\<rparr>, create_params ''acct'' html_hi)])"
    using pdf_try_call [OF configured_env_ok html_hi_nonempty, of "client_throws (NonError ''boom'')"]
    by (simp add: client_throws_def sdk_requests_def)
  have b: "pdf_try_fetch (provider_throws (NonError ''boom'')) env_ok (Some html_hi) =
     (Inl (NonError ''boom''), [ProviderCall (fetch_request ''acct'' ''tok'' html_hi)])"
    using pdf_try_fetch_call [OF configured_env_ok html_hi_nonempty, of "provider_throws (NonError ''boom'')"]
    by (simp add: provider_throws_def)
  show ?thesis
    using a b
      C9_unknown_error_details [of "client_throws (NonError ''boom'')" env_ok "Some html_hi"
        "''boom''" "[ProviderCall (\<lparr>apiToken = ''tok''\<rparr>, create_params ''acct'' html_hi)]"
        "provider_throws (NonError ''boom'')"
        "[ProviderCall (fetch_request ''acct'' ''tok'' html_hi)]"]
    by simp
qed



end
